theory Spec2Isabelle
  imports Main
begin

section \<open>Data model of \<open>src/App.tsx\<close>\<close>

text \<open>
  \<^verbatim>\<open>type Panel = 'preview' | 'terminal' | 'none';\<close>
\<close>

datatype Panel = Preview | Terminal | NoPanel

text \<open>
  \<^verbatim>\<open>interface File { id: string; name: string; language: string; content: string; }\<close>
  Strings are lists of characters. The field \<open>id\<close> is called \<open>file_id\<close>, since \<open>id\<close> is
  the identity function of HOL.
\<close>

record File =
  file_id :: string
  name :: string
  language :: string
  content :: string

text \<open>What \<open>saveFile\<close> hands to the browser: the blob and the anchor's \<open>download\<close> attribute.\<close>

record download =
  blob_content :: string
  blob_type :: string
  download_name :: string

text \<open>
  The state of the component. The first five fields are the \<open>useState\<close> cells of \<open>App\<close>.
  The others record what the component does to its surroundings:
  \<^item> \<open>editorListener\<close>: the content-change callback registered by \<open>handleEditorDidMount\<close>.
    The callback is a closure; the only variable of the component it captures is
    \<open>activeFileId\<close>, a \<open>const\<close> of the render in which \<open>handleEditorDidMount\<close> was
    created, so the closure is represented by that captured value. \<open>None\<close> before the
    editor has mounted.
  \<^item> \<open>mediaRequests\<close>: how many times \<open>getUserMedia\<close> has been called.
  \<^item> \<open>localVideoSrc\<close>: \<open>localVideoRef.current.srcObject\<close> (a stream is named by a number).
  \<^item> \<open>console\<close>: the lines written by \<open>console.error\<close>.
  \<^item> \<open>downloads\<close>: the downloads started by \<open>saveFile\<close>.
\<close>

record app =
  files :: "File list"
  activeFileId :: string
  videoEnabled :: bool
  peers :: "string set"
  rightPanel :: Panel
  editorListener :: "string option"
  mediaRequests :: nat
  localVideoSrc :: "nat option"
  console :: "(string \<times> string) list"
  downloads :: "download list"

text \<open>The initial values of the \<open>useState\<close> cells and refs (lines 31 to 47).\<close>

definition init_files :: "File list" where
  "init_files =
     [\<lparr>file_id = ''1'', name = ''index.html'', language = ''html'', content = ''''\<rparr>,
      \<lparr>file_id = ''2'', name = ''styles.css'', language = ''css'', content = ''''\<rparr>,
      \<lparr>file_id = ''3'', name = ''script.js'', language = ''javascript'', content = ''''\<rparr>]"

definition init :: app where
  "init = \<lparr>files = init_files, activeFileId = ''1'', videoEnabled = False, peers = {},
            rightPanel = NoPanel, editorListener = None, mediaRequests = 0,
            localVideoSrc = None, console = [], downloads = []\<rparr>"

text \<open>\<^verbatim>\<open>const activeFile = files.find(f => f.id === activeFileId)!;\<close> (line 49), with the
  \<open>undefined\<close> of \<open>find\<close> as \<open>None\<close>.\<close>

definition activeFile :: "app \<Rightarrow> File option" where
  "activeFile s = find (\<lambda>f. file_id f = activeFileId s) (files s)"

section \<open>String helpers of JavaScript\<close>

text \<open>\<open>String.prototype.split\<close> with a one-character separator: the pieces between the
  separators, in order; never an empty array.\<close>

fun split :: "char \<Rightarrow> string \<Rightarrow> string list" where
  "split sep [] = [[]]"
| "split sep (c # cs) =
     (if c = sep then [] # split sep cs
      else (c # hd (split sep cs)) # tl (split sep cs))"

text \<open>\<open>Array.prototype.pop\<close>, for its result: the last element, \<open>undefined\<close> on \<open>[]\<close>.\<close>

definition pop :: "'a list \<Rightarrow> 'a option" where
  "pop xs = (if xs = [] then None else Some (last xs))"

text \<open>\<open>toLowerCase\<close> on the letters \<open>A\<close> to \<open>Z\<close>; every other character is kept. (The
  characters outside ASCII that JavaScript lowers to an ASCII letter give \<open>k\<close> or an
  \<open>i\<close> followed by a combining dot; no extension of the switch below contains them.)\<close>

definition lower_char :: "char \<Rightarrow> char" where
  "lower_char c =
     (let n = (of_char c :: nat) in if 65 \<le> n \<and> n \<le> 90 then char_of (n + 32) else c)"

definition toLowerCase :: "string \<Rightarrow> string" where
  "toLowerCase s = map lower_char s"

text \<open>\<open>Number.prototype.toString\<close> on a non-negative integer: its decimal digits.\<close>

definition digit_char :: "nat \<Rightarrow> char" where
  "digit_char d = ''0123456789'' ! d"

fun toString :: "nat \<Rightarrow> string" where
  "toString n = (if n < 10 then [digit_char n] else toString (n div 10) @ [digit_char (n mod 10)])"

declare toString.simps [simp del]

section \<open>The operations\<close>

text \<open>\<^verbatim>\<open>setRightPanel(prev => prev === panel ? 'none' : panel)\<close> (lines 212 to 214): the
  updater, then the action on the state.\<close>

definition togglePanel_upd :: "Panel \<Rightarrow> Panel \<Rightarrow> Panel" where
  "togglePanel_upd panel prev = (if prev = panel then NoPanel else panel)"

definition togglePanel :: "Panel \<Rightarrow> app \<Rightarrow> app" where
  "togglePanel panel s = s\<lparr>rightPanel := togglePanel_upd panel (rightPanel s)\<rparr>"

text \<open>\<^verbatim>\<open>fileName.split('.').pop()?.toLowerCase() || ''\<close> (line 220): \<open>||\<close> replaces
  \<open>undefined\<close> and the empty string by \<open>''\<close>.\<close>

definition extension :: "string \<Rightarrow> string" where
  "extension fileName =
     (case pop (split CHR ''.'' fileName) of
        None \<Rightarrow> ''''
      | Some e \<Rightarrow> (if toLowerCase e = '''' then '''' else toLowerCase e))"

text \<open>The \<open>switch\<close> of lines 221 to 231.\<close>

definition language_of :: "string \<Rightarrow> string" where
  "language_of ext =
     (if ext = ''html'' then ''html''
      else if ext = ''css'' then ''css''
      else if ext = ''js'' then ''javascript''
      else if ext = ''ts'' then ''typescript''
      else if ext = ''json'' then ''json''
      else if ext = ''md'' then ''markdown''
      else ''plaintext'')"

text \<open>\<open>addNewFile\<close> (lines 216 to 242). Its two inputs are the answer of \<open>prompt\<close>
  (\<open>None\<close> for \<open>null\<close>, when the user cancels) and the value of \<open>Date.now()\<close>.
  \<open>!fileName\<close> holds for \<open>null\<close> and for the empty string.\<close>

definition addNewFile :: "string option \<Rightarrow> nat \<Rightarrow> app \<Rightarrow> app" where
  "addNewFile answer now s =
     (case answer of
        None \<Rightarrow> s
      | Some fileName \<Rightarrow>
          if fileName = '''' then s
          else
            let newFile = \<lparr>file_id = toString now, name = fileName,
                           language = language_of (extension fileName), content = ''''\<rparr>
            in s\<lparr>files := files s @ [newFile], activeFileId := file_id newFile\<rparr>)"

text \<open>\<open>saveFile\<close> (lines 244 to 255): no state setter is called; the download is started
  for the first file with the active id, if there is one.\<close>

definition saveFile :: "app \<Rightarrow> app" where
  "saveFile s =
     (case find (\<lambda>f. file_id f = activeFileId s) (files s) of
        None \<Rightarrow> s
      | Some f \<Rightarrow>
          s\<lparr>downloads := downloads s @
               [\<lparr>blob_content = content f, blob_type = ''text/plain'',
                 download_name = name f\<rparr>]\<rparr>)"

text \<open>The file-list buttons (lines 320 to 331): one button per entry of \<open>files\<close>, whose
  click is \<open>setActiveFileId(file.id)\<close>. The input is the position of the button; there is
  no button beyond the end of the list.\<close>

definition selectFile :: "nat \<Rightarrow> app \<Rightarrow> app" where
  "selectFile i s =
     (if i < length (files s) then s\<lparr>activeFileId := file_id (files s ! i)\<rparr> else s)"

text \<open>\<open>handleEditorDidMount\<close> (lines 140 to 156), the editor widget's mount callback. It
  stores the editor in \<open>editorRef\<close> and registers the content-change callback on it. The
  callback reads \<open>activeFileId\<close>, a \<open>const\<close> of the call of \<open>App\<close> that created this
  \<open>handleEditorDidMount\<close>; a later render makes new closures and leaves the registered
  one as it is. The editor that mounts replaces the one before it, with its callback.
  (The bindings of the editor to the replicated document, lines 142 to 148, belong to the
  external libraries and touch no cell of the state.)\<close>

definition handleEditorDidMount :: "app \<Rightarrow> app" where
  "handleEditorDidMount s = s\<lparr>editorListener := Some (activeFileId s)\<rparr>"

text \<open>The body of the content-change callback (lines 151 to 154), for the captured id
  and the editor's value:
  \<^verbatim>\<open>setFiles(prev => prev.map(f => f.id === activeFileId ? { ...f, content } : f))\<close>.\<close>

definition setContent :: "string \<Rightarrow> string \<Rightarrow> File list \<Rightarrow> File list" where
  "setContent captured c prev =
     map (\<lambda>f. if file_id f = captured then f\<lparr>content := c\<rparr> else f) prev"

text \<open>A content-change notification of the editor with value \<open>c\<close>: it runs the registered
  callback; an editor that has not mounted sends none.\<close>

definition contentChange :: "string \<Rightarrow> app \<Rightarrow> app" where
  "contentChange c s =
     (case editorListener s of
        None \<Rightarrow> s
      | Some captured \<Rightarrow> s\<lparr>files := setContent captured c (files s)\<rparr>)"

text \<open>\<open>toggleVideo\<close> (lines 208 to 210) followed by the effect of lines 187 to 206, which
  runs when \<open>videoEnabled\<close> has changed: switched on, it calls \<open>getUserMedia\<close>; switched
  off, the video element is no longer rendered and the cleanup of the previous run clears
  \<open>srcObject\<close>, so no stream is shown.\<close>

definition toggleVideo :: "app \<Rightarrow> app" where
  "toggleVideo s =
     (if videoEnabled s then s\<lparr>videoEnabled := False, localVideoSrc := None\<rparr>
      else s\<lparr>videoEnabled := True, mediaRequests := Suc (mediaRequests s)\<rparr>)"

text \<open>The two continuations of the \<open>getUserMedia\<close> promise (lines 191 to 196).
  \<open>localVideoRef.current\<close> is the video element, rendered only while \<open>videoEnabled\<close>.\<close>

definition mediaGranted :: "nat \<Rightarrow> app \<Rightarrow> app" where
  "mediaGranted stream s =
     (if videoEnabled s then s\<lparr>localVideoSrc := Some stream\<rparr> else s)"

definition mediaDenied :: "string \<Rightarrow> app \<Rightarrow> app" where
  "mediaDenied err s = s\<lparr>console := console s @ [(''Error accessing media devices:'', err)]\<rparr>"

text \<open>\<open>updatePeers\<close> (lines 84 to 86), with the keys of the awareness states as input.\<close>

definition updatePeers :: "string set \<Rightarrow> app \<Rightarrow> app" where
  "updatePeers ks s = s\<lparr>peers := ks\<rparr>"

section \<open>The component as a state machine\<close>

datatype action =
    AddNewFile "string option" nat
  | SaveFile
  | SelectFile nat
  | TogglePanel Panel
  | ToggleVideo
  | EditorDidMount
  | ContentChange string
  | MediaGranted nat
  | MediaDenied string
  | UpdatePeers "string set"

fun step :: "app \<Rightarrow> action \<Rightarrow> app" where
  "step s (AddNewFile answer now) = addNewFile answer now s"
| "step s SaveFile = saveFile s"
| "step s (SelectFile i) = selectFile i s"
| "step s (TogglePanel p) = togglePanel p s"
| "step s ToggleVideo = toggleVideo s"
| "step s EditorDidMount = handleEditorDidMount s"
| "step s (ContentChange c) = contentChange c s"
| "step s (MediaGranted stream) = mediaGranted stream s"
| "step s (MediaDenied err) = mediaDenied err s"
| "step s (UpdatePeers ks) = updatePeers ks s"

text \<open>The state after a sequence of actions from startup.\<close>

definition run :: "action list \<Rightarrow> app" where
  "run as = foldl step init as"

section \<open>Notions used in the statements\<close>

text \<open>What identifies an entry of the file list apart from its content.\<close>

definition file_key :: "File \<Rightarrow> string \<times> string \<times> string" where
  "file_key f = (file_id f, name f, language f)"

text \<open>The active file id is the id of an entry of the file list.\<close>

definition active_present :: "app \<Rightarrow> bool" where
  "active_present s = (activeFileId s \<in> file_id ` set (files s))"

section \<open>Auxiliary facts\<close>

lemmas op_defs = addNewFile_def saveFile_def selectFile_def togglePanel_def toggleVideo_def
  handleEditorDidMount_def contentChange_def mediaGranted_def mediaDenied_def updatePeers_def

subsection \<open>Splitting a name at its dots\<close>

lemma split_not_Nil: "split sep cs \<noteq> []"
  by (induction cs) auto

lemma split_no_sep: "sep \<notin> set cs \<Longrightarrow> split sep cs = [cs]"
  by (induction cs) auto

lemma tl_split_append: "tl (split sep (base @ sep # e)) \<noteq> []"
  by (induction base) (auto simp: split_not_Nil)

lemma last_split_append: "last (split sep (base @ sep # e)) = last (split sep e)"
proof (induction base)
  case Nil
  then show ?case by (simp add: split_not_Nil)
next
  case (Cons a base)
  obtain p q ps where "split sep (base @ sep # e) = p # q # ps"
    using tl_split_append [of sep base e] split_not_Nil [of sep "base @ sep # e"]
    by (cases "split sep (base @ sep # e)"; cases "tl (split sep (base @ sep # e))") auto
  with Cons show ?case
    by simp
qed

text \<open>A name with a dot: the extension is the lowercased text after the last dot.\<close>

lemma extension_dotted:
  "CHR ''.'' \<notin> set e \<Longrightarrow> extension (base @ CHR ''.'' # e) = toLowerCase e"
  by (simp add: extension_def pop_def split_not_Nil last_split_append split_no_sep
        toLowerCase_def)

text \<open>A name without a dot: \<open>split\<close> returns the name as its only piece, so the
  extension is the whole lowercased name.\<close>

lemma extension_no_dot:
  "CHR ''.'' \<notin> set fileName \<Longrightarrow> extension fileName = toLowerCase fileName"
  by (simp add: extension_def pop_def split_no_sep toLowerCase_def)

lemma addNewFile_named:
  "fileName \<noteq> [] \<Longrightarrow>
     addNewFile (Some fileName) now s =
       s\<lparr>files := files s @
             [\<lparr>file_id = toString now, name = fileName,
               language = language_of (extension fileName), content = ''''\<rparr>],
         activeFileId := toString now\<rparr>"
  by (simp add: addNewFile_def)

lemma toString_example: "toString 1700000000000 = ''1700000000000''"
  by (simp add: toString.simps digit_char_def)

lemma extension_html: "extension ''html'' = ''html''"
  by code_simp

subsection \<open>The content-change callback\<close>

lemma setContent_keys: "map file_key (setContent captured c fs) = map file_key fs"
  by (induction fs) (simp_all add: setContent_def file_key_def)

lemma setContent_length: "length (setContent captured c fs) = length fs"
  by (simp add: setContent_def)

lemma setContent_ids: "file_id ` set (setContent captured c fs) = file_id ` set fs"
  by (induction fs) (simp_all add: setContent_def)

text \<open>The callback changes the content of the entries with the captured id, and nothing
  else.\<close>

lemma setContent_frame:
  "length (setContent captured c fs) = length fs \<and>
   (\<forall>i < length fs.
      file_id (setContent captured c fs ! i) = file_id (fs ! i) \<and>
      name (setContent captured c fs ! i) = name (fs ! i) \<and>
      language (setContent captured c fs ! i) = language (fs ! i) \<and>
      content (setContent captured c fs ! i) =
        (if file_id (fs ! i) = captured then c else content (fs ! i)))"
  by (simp add: setContent_def)

subsection \<open>The file list under one action\<close>

lemma step_files_cases:
  "files (step s a) = files s \<or>
   (\<exists>f. files (step s a) = files s @ [f]) \<or>
   (\<exists>captured c. files (step s a) = setContent captured c (files s))"
  by (cases a) (auto simp: op_defs Let_def split: option.splits)

subsection \<open>Looking up the active file\<close>

lemma find_id_Some:
  "k \<in> file_id ` set fs \<Longrightarrow>
     \<exists>f. find (\<lambda>f. file_id f = k) fs = Some f \<and> f \<in> set fs \<and> file_id f = k"
  by (induction fs) auto

lemma find_id_SomeD:
  "find (\<lambda>f. file_id f = k) fs = Some f \<Longrightarrow> f \<in> set fs \<and> file_id f = k"
  by (induction fs) (auto split: if_splits)

lemma find_id_None: "find (\<lambda>f. file_id f = k) fs = None \<longleftrightarrow> k \<notin> file_id ` set fs"
  by (induction fs) auto

lemma active_present_init: "active_present init"
  by (simp add: active_present_def init_def init_files_def)

lemma active_present_step: "active_present s \<Longrightarrow> active_present (step s a)"
  by (cases a)
    (auto simp: active_present_def op_defs Let_def setContent_ids split: option.splits)

lemma active_present_foldl: "active_present s \<Longrightarrow> active_present (foldl step s as)"
  by (induction as arbitrary: s) (simp_all add: active_present_step)

section \<open>The claims\<close>

subsection \<open>Panel visibility\<close>

text \<open>
  C1, as it holds on the code: from a state whose panel is the preview or none, toggling
  the terminal panel twice in succession leaves no panel shown. (The first toggle shows
  the terminal, the second hides it.)
\<close>

theorem togglePanel_terminal_twice:
  "rightPanel s \<noteq> Terminal \<Longrightarrow>
     rightPanel (togglePanel Terminal (togglePanel Terminal s)) = NoPanel"
  by (simp add: togglePanel_def togglePanel_upd_def)

theorem togglePanel_terminal_twice_witness:
  "rightPanel init \<noteq> Terminal \<and>
   rightPanel (togglePanel Terminal (togglePanel Terminal init)) = NoPanel \<and>
   rightPanel (togglePanel Preview init) \<noteq> Terminal \<and>
   rightPanel (togglePanel Terminal (togglePanel Terminal (togglePanel Preview init))) = NoPanel"
  using togglePanel_terminal_twice [of init]
    togglePanel_terminal_twice [of "togglePanel Preview init"]
  by (simp add: init_def togglePanel_def togglePanel_upd_def)

text \<open>
  C1 as stated, for every panel state, fails when the terminal is the panel shown: after
  startup and one click on the terminal button the panel is the terminal, and two more
  toggles hide it and show it again.
\<close>

theorem togglePanel_terminal_twice_from_terminal:
  "rightPanel (run [TogglePanel Terminal]) = Terminal \<and>
   rightPanel (togglePanel Terminal (togglePanel Terminal (run [TogglePanel Terminal]))) = Terminal \<and>
   rightPanel (togglePanel Terminal (togglePanel Terminal (run [TogglePanel Terminal]))) \<noteq> NoPanel"
  by (simp add: run_def init_def togglePanel_def togglePanel_upd_def)

text \<open>
  C5: the panel state is one of the three values preview, terminal and none, and so is
  the state after a toggle; toggling the panel that is shown gives none, and toggling a
  panel that is not shown gives that panel.
\<close>

theorem togglePanel_states:
  "(p = Preview \<or> p = Terminal \<or> p = NoPanel) \<and>
   rightPanel (togglePanel panel s) \<in> {Preview, Terminal, NoPanel} \<and>
   (rightPanel s = panel \<longrightarrow> rightPanel (togglePanel panel s) = NoPanel) \<and>
   (rightPanel s \<noteq> panel \<longrightarrow> rightPanel (togglePanel panel s) = panel)"
  by (cases p; cases panel) (simp_all add: togglePanel_def togglePanel_upd_def)

theorem togglePanel_states_witness:
  "rightPanel init \<noteq> Preview \<and> rightPanel (togglePanel Preview init) = Preview \<and>
   rightPanel (togglePanel Preview (togglePanel Preview init)) = NoPanel"
  using togglePanel_states [of Preview Preview init]
    togglePanel_states [of Preview Preview "togglePanel Preview init"]
  by (simp add: init_def togglePanel_def togglePanel_upd_def)

subsection \<open>The file list\<close>

text \<open>
  C3: at startup the file list is exactly the three default files \<open>index.html\<close> (html),
  \<open>styles.css\<close> (css) and \<open>script.js\<close> (javascript), each with empty content, and the
  active file is the first of them.
\<close>

theorem startup_files:
  "files init =
     [\<lparr>file_id = ''1'', name = ''index.html'', language = ''html'', content = ''''\<rparr>,
      \<lparr>file_id = ''2'', name = ''styles.css'', language = ''css'', content = ''''\<rparr>,
      \<lparr>file_id = ''3'', name = ''script.js'', language = ''javascript'', content = ''''\<rparr>] \<and>
   length (files init) = 3 \<and>
   activeFileId init = ''1'' \<and>
   activeFile init = Some (hd (files init)) \<and>
   run [] = init"
  by (simp add: init_def init_files_def activeFile_def run_def)

text \<open>
  C2: the language tag of a new file is to come from the text after the last dot of its
  name, and a name with no dot is to give \<open>plaintext\<close>. On the code, the name \<open>html\<close>,
  which has no dot, gives the tag \<open>html\<close>: \<open>split('.')\<close> returns the whole name as its
  only piece and \<open>pop()\<close> takes it for the extension (lemma \<open>extension_no_dot\<close>). For a
  name with a dot the tag is the one of the text after the last dot (lemma
  \<open>extension_dotted\<close>).
\<close>

theorem addNewFile_name_without_dot:
  "files (addNewFile (Some ''html'') 1700000000000 init) =
     init_files @
     [\<lparr>file_id = ''1700000000000'', name = ''html'', language = ''html'', content = ''''\<rparr>]"
  by (simp add: addNewFile_def extension_html toString_example language_of_def init_def)

text \<open>
  C4: no action removes a file. After any action the file list is at least as long as
  before, and every position of the old list holds an entry with the same id, name and
  language; for every action but an editor content change it holds the very same entry
  (a content change replaces the content of an entry, which stays in its place).
\<close>

theorem step_keeps_files:
  "length (files s) \<le> length (files (step s a)) \<and>
   map file_key (take (length (files s)) (files (step s a))) = map file_key (files s) \<and>
   ((\<forall>c. a \<noteq> ContentChange c) \<longrightarrow> take (length (files s)) (files (step s a)) = files s)"
proof -
  have "(\<forall>c. a \<noteq> ContentChange c) \<longrightarrow> take (length (files s)) (files (step s a)) = files s"
    by (cases a) (auto simp: op_defs Let_def split: option.splits)
  moreover have "length (files s) \<le> length (files (step s a)) \<and>
    map file_key (take (length (files s)) (files (step s a))) = map file_key (files s)"
    using step_files_cases [of s a]
    by (auto simp: setContent_keys setContent_length take_map)
  ultimately show ?thesis by blast
qed

theorem step_keeps_files_witness:
  "length (files init) \<le> length (files (step init (AddNewFile (Some ''a.ts'') 1700000000000))) \<and>
   take (length (files init)) (files (step init (AddNewFile (Some ''a.ts'') 1700000000000))) =
     files init \<and>
   map file_key (files (step (step init EditorDidMount) (ContentChange ''x''))) =
     map file_key (files (step init EditorDidMount))"
  using step_keeps_files [of init "AddNewFile (Some ''a.ts'') 1700000000000"]
    step_keeps_files [of "step init EditorDidMount" "ContentChange ''x''"]
  by (simp add: op_defs setContent_length)

text \<open>
  C9: when the name prompt is cancelled (\<open>null\<close>) or answered with the empty string,
  \<open>addNewFile\<close> returns at once: the whole state, the file list and the active file id
  with it, is unchanged.
\<close>

theorem addNewFile_cancelled:
  "addNewFile None now s = s \<and> addNewFile (Some '''') now s = s"
  by (simp add: addNewFile_def)

text \<open>
  C7: \<open>saveFile\<close> downloads the active file and changes nothing else. When the lookup of
  the active id finds a file, one download is started, whose blob holds that file's
  content and whose name is that file's name; the lookup finds a file whenever the list
  has one with the active id. When the list has no file with the active id, the state is
  unchanged. In every case the file list and every other cell of the state are as before.
\<close>

theorem saveFile_downloads_active:
  "(activeFile s = Some f \<longrightarrow>
      f \<in> set (files s) \<and> file_id f = activeFileId s \<and>
      downloads (saveFile s) = downloads s @
        [\<lparr>blob_content = content f, blob_type = ''text/plain'', download_name = name f\<rparr>]) \<and>
   ((\<exists>g \<in> set (files s). file_id g = activeFileId s) \<longrightarrow> activeFile s \<noteq> None) \<and>
   ((\<forall>g \<in> set (files s). file_id g \<noteq> activeFileId s) \<longrightarrow> saveFile s = s) \<and>
   files (saveFile s) = files s \<and>
   activeFileId (saveFile s) = activeFileId s \<and>
   videoEnabled (saveFile s) = videoEnabled s \<and>
   peers (saveFile s) = peers s \<and>
   rightPanel (saveFile s) = rightPanel s \<and>
   editorListener (saveFile s) = editorListener s \<and>
   mediaRequests (saveFile s) = mediaRequests s \<and>
   localVideoSrc (saveFile s) = localVideoSrc s \<and>
   console (saveFile s) = console s"
proof (cases "find (\<lambda>f. file_id f = activeFileId s) (files s)")
  case None
  then have "activeFileId s \<notin> file_id ` set (files s)"
    by (simp add: find_id_None)
  then have "\<forall>g \<in> set (files s). file_id g \<noteq> activeFileId s"
    by force
  with None show ?thesis
    by (simp add: activeFile_def saveFile_def)
next
  case (Some g)
  then have "g \<in> set (files s) \<and> file_id g = activeFileId s"
    by (rule find_id_SomeD)
  with Some show ?thesis
    by (auto simp: activeFile_def saveFile_def)
qed

theorem saveFile_downloads_active_witness:
  "activeFile init = Some (hd init_files) \<and>
   downloads (saveFile init) =
     [\<lparr>blob_content = '''', blob_type = ''text/plain'', download_name = ''index.html''\<rparr>] \<and>
   saveFile (init\<lparr>files := []\<rparr>) = init\<lparr>files := []\<rparr>"
  using saveFile_downloads_active [of init "hd init_files"]
    saveFile_downloads_active [of "init\<lparr>files := []\<rparr>"]
  by (simp add: init_def init_files_def activeFile_def)

text \<open>
  C8: the active file id always names a file of the list. It does at startup; selecting
  a file sets it to the id of an entry of the list and leaves the list alone; creating a
  file sets it to the id of the entry just appended; every action keeps the property.
  So in every state reached from startup the lookup of the active file finds a file.
\<close>

theorem activeFile_always_found:
  "active_present init \<and>
   (i < length (files s) \<longrightarrow>
      activeFileId (selectFile i s) = file_id (files s ! i) \<and> files (selectFile i s) = files s) \<and>
   (fileName \<noteq> [] \<longrightarrow>
      activeFileId (addNewFile (Some fileName) now s) =
        file_id (last (files (addNewFile (Some fileName) now s)))) \<and>
   (active_present s \<longrightarrow> active_present (step s a)) \<and>
   active_present (run as) \<and>
   (\<exists>f. activeFile (run as) = Some f \<and> f \<in> set (files (run as)) \<and>
        file_id f = activeFileId (run as))"
proof -
  have reach: "active_present (run as)"
    unfolding run_def by (rule active_present_foldl [OF active_present_init])
  then have "activeFileId (run as) \<in> file_id ` set (files (run as))"
    by (simp add: active_present_def)
  then have found: "\<exists>f. activeFile (run as) = Some f \<and> f \<in> set (files (run as)) \<and>
        file_id f = activeFileId (run as)"
    using find_id_Some [of "activeFileId (run as)" "files (run as)"]
    by (simp add: activeFile_def)
  have sel: "i < length (files s) \<longrightarrow>
      activeFileId (selectFile i s) = file_id (files s ! i) \<and> files (selectFile i s) = files s"
    by (simp add: selectFile_def)
  have new: "fileName \<noteq> [] \<longrightarrow>
      activeFileId (addNewFile (Some fileName) now s) =
        file_id (last (files (addNewFile (Some fileName) now s)))"
    by (simp add: addNewFile_named)
  show ?thesis
    using reach found sel new active_present_init active_present_step [of s a]
    by blast
qed

theorem activeFile_always_found_witness:
  "activeFileId (run [AddNewFile (Some ''a.ts'') 1700000000000, SelectFile 1]) = ''2'' \<and>
   activeFile (run [AddNewFile (Some ''a.ts'') 1700000000000, SelectFile 1]) =
     Some \<lparr>file_id = ''2'', name = ''styles.css'', language = ''css'', content = ''''\<rparr> \<and>
   active_present (step init (SelectFile 2)) \<and>
   activeFileId (selectFile 2 init) = ''3'' \<and>
   activeFileId (addNewFile (Some ''a.ts'') 1700000000000 init) = ''1700000000000''"
  using activeFile_always_found [of 2 init "''a.ts''" 1700000000000 "SelectFile 2"
      "[AddNewFile (Some ''a.ts'') 1700000000000, SelectFile 1]"]
  by (simp add: run_def init_def init_files_def addNewFile_def selectFile_def
        activeFile_def toString_example)

text \<open>
  C10: a content change is to update the file whose id is the current active file id.
  The callback registered when the editor mounted holds the \<open>activeFileId\<close> of that
  moment. After startup, the mount of the editor and a click on the second file
  (\<open>styles.css\<close>, id \<open>2\<close>), the active file id is \<open>2\<close>, and a content change with the
  value \<open>x\<close> puts \<open>x\<close> in the file with id \<open>1\<close> and leaves the active file as it was.
  (What holds for the captured id is lemma \<open>setContent_frame\<close>.)
\<close>

theorem contentChange_after_select:
  "activeFileId (run [EditorDidMount, SelectFile 1]) = ''2'' \<and>
   files (contentChange ''x'' (run [EditorDidMount, SelectFile 1])) =
     [\<lparr>file_id = ''1'', name = ''index.html'', language = ''html'', content = ''x''\<rparr>,
      \<lparr>file_id = ''2'', name = ''styles.css'', language = ''css'', content = ''''\<rparr>,
      \<lparr>file_id = ''3'', name = ''script.js'', language = ''javascript'', content = ''''\<rparr>]"
  by (simp add: run_def init_def init_files_def handleEditorDidMount_def selectFile_def
        contentChange_def setContent_def)

subsection \<open>Media devices\<close>

text \<open>
  C6: when \<open>getUserMedia\<close> is refused, the rejection is caught and one line is written
  with \<open>console.error\<close>; nothing else happens. The \<open>videoEnabled\<close> flag, the file list and
  the panel state are unchanged, as is every other cell of the state, and
  \<open>getUserMedia\<close> is not called again.
\<close>

theorem mediaDenied_only_logs:
  "videoEnabled (mediaDenied err s) = videoEnabled s \<and>
   files (mediaDenied err s) = files s \<and>
   rightPanel (mediaDenied err s) = rightPanel s \<and>
   activeFileId (mediaDenied err s) = activeFileId s \<and>
   peers (mediaDenied err s) = peers s \<and>
   editorListener (mediaDenied err s) = editorListener s \<and>
   localVideoSrc (mediaDenied err s) = localVideoSrc s \<and>
   downloads (mediaDenied err s) = downloads s \<and>
   mediaRequests (mediaDenied err s) = mediaRequests s \<and>
   console (mediaDenied err s) = console s @ [(''Error accessing media devices:'', err)] \<and>
   step s (MediaDenied err) = mediaDenied err s"
  by (simp add: mediaDenied_def)

end
